theory Spec2Isabelle
  imports Main "HOL-Library.Word"
begin

section \<open>Python values used by the scripts\<close>

text \<open>
  The repository consists of diagnostic Python scripts. Byte strings (\<open>bytes\<close>) are lists
  of 8-bit words, text strings are \<open>string\<close> (every character the scripts accept is
  ASCII). The library functions the scripts import (\<open>eth_utils.keccak\<close>,
  \<open>eth_keys.keys.PublicKey.from_compressed_bytes\<close>, \<open>eth_keys.keys.Signature\<close>) and the
  built-in \<open>int(_, 16)\<close> are parameters of the functions below; a library call that raises
  is the value \<open>None\<close>.
\<close>

type_synonym byte = "8 word"
type_synonym bytes = "byte list"

datatype py_error = ValueError | IndexError | LibraryError

text \<open>\<open>s.startswith('0x')\<close> followed by \<open>s = s[2:]\<close>.\<close>

definition strip_0x :: "string \<Rightarrow> string" where
  "strip_0x s = (if take 2 s = ''0x'' then drop 2 s else s)"

text \<open>The ASCII whitespace that \<open>bytes.fromhex\<close> skips between bytes.\<close>

definition is_space :: "char \<Rightarrow> bool" where
  "is_space c = (c \<in> set [CHR 0x20, CHR 0x09, CHR 0x0A, CHR 0x0B, CHR 0x0C, CHR 0x0D])"

definition hex_value :: "char \<Rightarrow> nat option" where
  "hex_value c =
     (let n = (of_char c :: nat) in
      if 48 \<le> n \<and> n \<le> 57 then Some (n - 48)
      else if 97 \<le> n \<and> n \<le> 102 then Some (n - 87)
      else if 65 \<le> n \<and> n \<le> 70 then Some (n - 55)
      else None)"

text \<open>
  \<open>bytes.fromhex\<close>: whitespace is skipped in front of a byte, then two adjacent hexadecimal
  digits (either case) are read; anything else raises \<open>ValueError\<close> (\<open>None\<close>).
\<close>

fun bytes_fromhex :: "string \<Rightarrow> bytes option" where
  "bytes_fromhex [] = Some []"
| "bytes_fromhex [c] = (if is_space c then Some [] else None)"
| "bytes_fromhex (c # d # cs) =
     (if is_space c then bytes_fromhex (d # cs)
      else (case (hex_value c, hex_value d) of
              (Some h, Some l) \<Rightarrow> map_option ((#) (of_nat (16 * h + l))) (bytes_fromhex cs)
            | _ \<Rightarrow> None))"

definition hex_digit :: "nat \<Rightarrow> char" where
  "hex_digit n = ''0123456789abcdef'' ! n"

definition hex_of_byte :: "byte \<Rightarrow> string" where
  "hex_of_byte b = [hex_digit (unat b div 16), hex_digit (unat b mod 16)]"

text \<open>\<open>bytes.hex()\<close>: two lower-case digits per byte.\<close>

definition bytes_hex :: "bytes \<Rightarrow> string" where
  "bytes_hex bs = concat (map hex_of_byte bs)"

text \<open>The slice \<open>xs[-n:]\<close> for \<open>n > 0\<close>: the last \<open>n\<close> elements, all of them when there are fewer.\<close>

definition py_last :: "nat \<Rightarrow> 'a list \<Rightarrow> 'a list" where
  "py_last n xs = drop (length xs - n) xs"

text \<open>\<open>str.lower()\<close> on ASCII text.\<close>

definition lower_char :: "char \<Rightarrow> char" where
  "lower_char c =
     (let n = (of_char c :: nat) in if 65 \<le> n \<and> n \<le> 90 then char_of (n + 32) else c)"

definition lower :: "string \<Rightarrow> string" where
  "lower s = map lower_char s"

section \<open>Address derivation\<close>

text \<open>
  What \<open>derive_address_from_public_key\<close> returns. The scripts return a string in every
  case: \<open>"0x" + address.hex()\<close>, \<open>"Invalid length: n chars"\<close> (\<open>"Invalid public key length: n"\<close>
  in \<open>test_key_derivation.py\<close>), or \<open>"Error: e"\<close> from the handler of the enclosing \<open>try\<close>.
\<close>

datatype derived = Address string | InvalidLength nat | Error py_error

text \<open>
  \<open>test_all_wallets.py\<close>, lines 13--27: the \<open>0x\<close> prefix of the text is dropped and
  \<open>uncompressed_bytes\<close> is chosen by the number of characters. \<open>Inl\<close> is the early return.
\<close>

definition uncompressed_bytes_all_wallets ::
  "(bytes \<Rightarrow> bytes option) \<Rightarrow> string \<Rightarrow> derived + bytes" where
  "uncompressed_bytes_all_wallets from_compressed_bytes public_key_hex0 =
     (let public_key_hex = strip_0x public_key_hex0 in
      if length public_key_hex = 66 then
        (case bytes_fromhex public_key_hex of
           None \<Rightarrow> Inl (Error ValueError)
         | Some public_key_bytes \<Rightarrow>
             (case from_compressed_bytes public_key_bytes of
                None \<Rightarrow> Inl (Error LibraryError)
              | Some uncompressed_bytes \<Rightarrow> Inr uncompressed_bytes))
      else if length public_key_hex = 128 then
        (case bytes_fromhex (''04'' @ public_key_hex) of
           None \<Rightarrow> Inl (Error ValueError)
         | Some uncompressed_bytes \<Rightarrow> Inr uncompressed_bytes)
      else if length public_key_hex = 130 then
        (case bytes_fromhex public_key_hex of
           None \<Rightarrow> Inl (Error ValueError)
         | Some uncompressed_bytes \<Rightarrow> Inr uncompressed_bytes)
      else Inl (InvalidLength (length public_key_hex)))"

text \<open>
  \<open>test_key_derivation.py\<close>, lines 13--24: the same with a \<open>compressed\<close> flag and without
  the 128-character branch.
\<close>

definition uncompressed_bytes_key_derivation ::
  "(bytes \<Rightarrow> bytes option) \<Rightarrow> string \<Rightarrow> bool \<Rightarrow> derived + bytes" where
  "uncompressed_bytes_key_derivation from_compressed_bytes public_key_hex0 compressed =
     (let public_key_hex = strip_0x public_key_hex0 in
      if compressed \<and> length public_key_hex = 66 then
        (case bytes_fromhex public_key_hex of
           None \<Rightarrow> Inl (Error ValueError)
         | Some public_key_bytes \<Rightarrow>
             (case from_compressed_bytes public_key_bytes of
                None \<Rightarrow> Inl (Error LibraryError)
              | Some uncompressed_bytes \<Rightarrow> Inr uncompressed_bytes))
      else if length public_key_hex = 130 then
        (case bytes_fromhex public_key_hex of
           None \<Rightarrow> Inl (Error ValueError)
         | Some uncompressed_bytes \<Rightarrow> Inr uncompressed_bytes)
      else Inl (InvalidLength (length public_key_hex)))"

text \<open>
  Both files, \<open>if uncompressed_bytes[0] == 0x04: uncompressed_bytes = uncompressed_bytes[1:]\<close>.
  Indexing an empty byte string raises \<open>IndexError\<close>.
\<close>

definition strip_prefix :: "bytes \<Rightarrow> py_error + bytes" where
  "strip_prefix uncompressed_bytes =
     (case uncompressed_bytes of
        [] \<Rightarrow> Inl IndexError
      | b # rest \<Rightarrow> if b = 0x04 then Inr rest else Inr uncompressed_bytes)"

text \<open>
  Both files, \<open>hash_result = keccak(uncompressed_bytes)\<close>, \<open>address = hash_result[-20:]\<close>,
  \<open>return f"0x{address.hex()}"\<close>.
\<close>

definition address_string :: "(bytes \<Rightarrow> bytes) \<Rightarrow> bytes \<Rightarrow> string" where
  "address_string keccak uncompressed_bytes =
     (let hash_result = keccak uncompressed_bytes;
          address = py_last 20 hash_result
      in ''0x'' @ bytes_hex address)"

definition address_of_uncompressed :: "(bytes \<Rightarrow> bytes) \<Rightarrow> bytes \<Rightarrow> derived" where
  "address_of_uncompressed keccak uncompressed_bytes =
     (case strip_prefix uncompressed_bytes of
        Inl e \<Rightarrow> Error e
      | Inr key \<Rightarrow> Address (address_string keccak key))"

text \<open>\<open>derive_address_from_public_key\<close> of \<open>test_all_wallets.py\<close>.\<close>

definition derive_address_from_public_key_all_wallets ::
  "(bytes \<Rightarrow> bytes) \<Rightarrow> (bytes \<Rightarrow> bytes option) \<Rightarrow> string \<Rightarrow> derived" where
  "derive_address_from_public_key_all_wallets keccak from_compressed_bytes public_key_hex =
     (case uncompressed_bytes_all_wallets from_compressed_bytes public_key_hex of
        Inl r \<Rightarrow> r
      | Inr uncompressed_bytes \<Rightarrow> address_of_uncompressed keccak uncompressed_bytes)"

text \<open>\<open>derive_address_from_public_key\<close> of \<open>test_key_derivation.py\<close>.\<close>

definition derive_address_from_public_key_key_derivation ::
  "(bytes \<Rightarrow> bytes) \<Rightarrow> (bytes \<Rightarrow> bytes option) \<Rightarrow> string \<Rightarrow> bool \<Rightarrow> derived" where
  "derive_address_from_public_key_key_derivation keccak from_compressed_bytes public_key_hex compressed =
     (case uncompressed_bytes_key_derivation from_compressed_bytes public_key_hex compressed of
        Inl r \<Rightarrow> r
      | Inr uncompressed_bytes \<Rightarrow> address_of_uncompressed keccak uncompressed_bytes)"

text \<open>
  The byte string that is hashed (lines 13--31 of \<open>test_all_wallets.py\<close>, 13--28 of
  \<open>test_key_derivation.py\<close>): the scripts' normalisation of a public key.
\<close>

definition normalized_key_all_wallets ::
  "(bytes \<Rightarrow> bytes option) \<Rightarrow> string \<Rightarrow> derived + bytes" where
  "normalized_key_all_wallets from_compressed_bytes public_key_hex =
     (case uncompressed_bytes_all_wallets from_compressed_bytes public_key_hex of
        Inl r \<Rightarrow> Inl r
      | Inr uncompressed_bytes \<Rightarrow>
          (case strip_prefix uncompressed_bytes of Inl e \<Rightarrow> Inl (Error e) | Inr key \<Rightarrow> Inr key))"

definition normalized_key_key_derivation ::
  "(bytes \<Rightarrow> bytes option) \<Rightarrow> string \<Rightarrow> bool \<Rightarrow> derived + bytes" where
  "normalized_key_key_derivation from_compressed_bytes public_key_hex compressed =
     (case uncompressed_bytes_key_derivation from_compressed_bytes public_key_hex compressed of
        Inl r \<Rightarrow> Inl r
      | Inr uncompressed_bytes \<Rightarrow>
          (case strip_prefix uncompressed_bytes of Inl e \<Rightarrow> Inl (Error e) | Inr key \<Rightarrow> Inr key))"

section \<open>Signature recovery search\<close>

text \<open>
  \<open>verify_signature_recovery\<close> of \<open>verify_tangem_signature.py\<close>. The function prints a
  report and returns \<open>None\<close> or \<open>(name, v_int, recovered_address)\<close>; the report is the list of
  events below (banner lines and blank lines are left out), the \<open>hash_candidates\<close> dictionary
  is the list of its items in insertion order.
\<close>

datatype event =
    InvalidSignatureLength nat
  | SignatureAnalysis string string string string
  | TestHeader nat string bytes
  | RecoveredAddress int string
  | MatchFound string
  | RecoveryFailed int
  | NoCandidateMatched

type_synonym match = "string \<times> int \<times> string"

text \<open>
  Lines 24--33: the \<open>0x\<close> prefix is dropped, a text that is not 130 characters long is
  refused (\<open>Inl\<close> carries its length), otherwise the text is cut into \<open>r_hex\<close>, \<open>s_hex\<close> and
  \<open>v_hex\<close>.
\<close>

definition signature_components :: "string \<Rightarrow> nat + string \<times> string \<times> string" where
  "signature_components signature_hex0 =
     (let signature_hex = strip_0x signature_hex0 in
      if length signature_hex \<noteq> 130 then Inl (length signature_hex)
      else Inr (take 64 signature_hex, take 64 (drop 64 signature_hex),
                take 2 (drop 128 signature_hex)))"

text \<open>
  Lines 52--63, the body of the inner \<open>try\<close>: \<open>int(r_hex, 16)\<close>, \<open>int(s_hex, 16)\<close>,
  \<open>recovery_id = v_int - 27\<close>, then the library builds the signature from
  \<open>(recovery_id, r, s)\<close>, recovers the public key from \<open>hash_bytes\<close> and renders its
  checksum address (\<open>recover_address\<close>). \<open>None\<close> is an exception raised on the way.
\<close>

definition recover_trial ::
  "(string \<Rightarrow> int option) \<Rightarrow> (int \<Rightarrow> int \<Rightarrow> int \<Rightarrow> bytes \<Rightarrow> string option) \<Rightarrow>
     string \<Rightarrow> string \<Rightarrow> bytes \<Rightarrow> int \<Rightarrow> string option" where
  "recover_trial int16 recover_address r_hex s_hex hash_bytes v_int =
     (case int16 r_hex of
        None \<Rightarrow> None
      | Some r \<Rightarrow>
          (case int16 s_hex of
             None \<Rightarrow> None
           | Some s \<Rightarrow>
               (let recovery_id = v_int - 27 in recover_address recovery_id r s hash_bytes)))"

text \<open>
  Lines 49--72, \<open>for v_int in [27, 28]\<close>: an exception is caught by the inner handler, which
  prints and goes on with the next value; a recovered address equal to the expected one
  (both lower-cased) returns from the whole function.
\<close>

fun try_v_values ::
  "(string \<Rightarrow> int option) \<Rightarrow> (int \<Rightarrow> int \<Rightarrow> int \<Rightarrow> bytes \<Rightarrow> string option) \<Rightarrow>
     string \<Rightarrow> string \<Rightarrow> string \<Rightarrow> string \<Rightarrow> bytes \<Rightarrow> int list \<Rightarrow> event list \<times> match option" where
  "try_v_values int16 recover_address r_hex s_hex expected_address name hash_bytes [] = ([], None)"
| "try_v_values int16 recover_address r_hex s_hex expected_address name hash_bytes (v_int # vs) =
     (case recover_trial int16 recover_address r_hex s_hex hash_bytes v_int of
        None \<Rightarrow>
          (case try_v_values int16 recover_address r_hex s_hex expected_address name hash_bytes vs of
             (log, res) \<Rightarrow> (RecoveryFailed v_int # log, res))
      | Some recovered_address \<Rightarrow>
          if lower recovered_address = lower expected_address
          then ([RecoveredAddress v_int recovered_address, MatchFound name],
                Some (name, v_int, recovered_address))
          else
            (case try_v_values int16 recover_address r_hex s_hex expected_address name hash_bytes vs of
               (log, res) \<Rightarrow> (RecoveredAddress v_int recovered_address # log, res)))"

text \<open>
  Lines 43--80, \<open>for i, (name, hash_bytes) in enumerate(hash_candidates.items(), 1)\<close>, and
  the final \<open>return None\<close>.
\<close>

fun test_candidates ::
  "(string \<Rightarrow> int option) \<Rightarrow> (int \<Rightarrow> int \<Rightarrow> int \<Rightarrow> bytes \<Rightarrow> string option) \<Rightarrow>
     string \<Rightarrow> string \<Rightarrow> string \<Rightarrow> nat \<Rightarrow> (string \<times> bytes) list \<Rightarrow> event list \<times> match option" where
  "test_candidates int16 recover_address r_hex s_hex expected_address i [] =
     ([NoCandidateMatched], None)"
| "test_candidates int16 recover_address r_hex s_hex expected_address i ((name, hash_bytes) # rest) =
     (case try_v_values int16 recover_address r_hex s_hex expected_address name hash_bytes [27, 28] of
        (log, Some m) \<Rightarrow> (TestHeader i name hash_bytes # log, Some m)
      | (log, None) \<Rightarrow>
          (case test_candidates int16 recover_address r_hex s_hex expected_address (Suc i) rest of
             (log', res) \<Rightarrow> (TestHeader i name hash_bytes # log @ log', res)))"

definition verify_signature_recovery ::
  "(string \<Rightarrow> int option) \<Rightarrow> (int \<Rightarrow> int \<Rightarrow> int \<Rightarrow> bytes \<Rightarrow> string option) \<Rightarrow>
     string \<Rightarrow> (string \<times> bytes) list \<Rightarrow> string \<Rightarrow> event list \<times> match option" where
  "verify_signature_recovery int16 recover_address signature_hex hash_candidates expected_address =
     (case signature_components signature_hex of
        Inl n \<Rightarrow> ([InvalidSignatureLength n], None)
      | Inr (r_hex, s_hex, v_hex) \<Rightarrow>
          (case test_candidates int16 recover_address r_hex s_hex expected_address 1 hash_candidates of
             (log, res) \<Rightarrow> (SignatureAnalysis r_hex s_hex v_hex expected_address # log, res)))"

text \<open>
  The order of the search in the words of the specification: the trials
  \<open>(name, v_int, hash_bytes)\<close>, candidates in input order and, for each, 27 before 28; a trial
  matches when its recovery succeeds with the expected address; the first matching trial.
\<close>

definition trials :: "(string \<times> bytes) list \<Rightarrow> (string \<times> int \<times> bytes) list" where
  "trials hash_candidates =
     concat (map (\<lambda>(name, hash_bytes). [(name, 27, hash_bytes), (name, 28, hash_bytes)])
       hash_candidates)"

definition trial_result ::
  "(string \<Rightarrow> int option) \<Rightarrow> (int \<Rightarrow> int \<Rightarrow> int \<Rightarrow> bytes \<Rightarrow> string option) \<Rightarrow>
     string \<Rightarrow> string \<Rightarrow> string \<Rightarrow> string \<times> int \<times> bytes \<Rightarrow> match option" where
  "trial_result int16 recover_address r_hex s_hex expected_address t =
     (case t of (name, v_int, hash_bytes) \<Rightarrow>
        (case recover_trial int16 recover_address r_hex s_hex hash_bytes v_int of
           None \<Rightarrow> None
         | Some recovered_address \<Rightarrow>
             if lower recovered_address = lower expected_address
             then Some (name, v_int, recovered_address) else None))"

fun first_match :: "('a \<Rightarrow> 'b option) \<Rightarrow> 'a list \<Rightarrow> 'b option" where
  "first_match f [] = None"
| "first_match f (t # ts) = (case f t of Some m \<Rightarrow> Some m | None \<Rightarrow> first_match f ts)"

text \<open>
  What a trial prints, and the report of a search in which no trial matches: every
  candidate is announced and both of its trials are printed, in order.
\<close>

definition trial_event ::
  "(string \<Rightarrow> int option) \<Rightarrow> (int \<Rightarrow> int \<Rightarrow> int \<Rightarrow> bytes \<Rightarrow> string option) \<Rightarrow>
     string \<Rightarrow> string \<Rightarrow> bytes \<Rightarrow> int \<Rightarrow> event" where
  "trial_event int16 recover_address r_hex s_hex hash_bytes v_int =
     (case recover_trial int16 recover_address r_hex s_hex hash_bytes v_int of
        None \<Rightarrow> RecoveryFailed v_int
      | Some recovered_address \<Rightarrow> RecoveredAddress v_int recovered_address)"

fun exhausted_report ::
  "(string \<Rightarrow> int option) \<Rightarrow> (int \<Rightarrow> int \<Rightarrow> int \<Rightarrow> bytes \<Rightarrow> string option) \<Rightarrow>
     string \<Rightarrow> string \<Rightarrow> nat \<Rightarrow> (string \<times> bytes) list \<Rightarrow> event list" where
  "exhausted_report int16 recover_address r_hex s_hex i [] = [NoCandidateMatched]"
| "exhausted_report int16 recover_address r_hex s_hex i ((name, hash_bytes) # rest) =
     TestHeader i name hash_bytes
       # trial_event int16 recover_address r_hex s_hex hash_bytes 27
       # trial_event int16 recover_address r_hex s_hex hash_bytes 28
       # exhausted_report int16 recover_address r_hex s_hex (Suc i) rest"

text \<open>
  Stand-ins for the two parameters, used to run the search on examples: \<open>int(text, 16)\<close> on
  a non-empty text of hexadecimal digits (Python accepts more: a sign, a \<open>0x\<close> prefix,
  underscores, surrounding whitespace), and a recovery that looks the pair
  \<open>(hash_bytes, recovery_id)\<close> up in a table and raises when it is not there.
\<close>

fun hex_digits_int :: "int \<Rightarrow> string \<Rightarrow> int option" where
  "hex_digits_int acc [] = Some acc"
| "hex_digits_int acc (c # cs) =
     (case hex_value c of None \<Rightarrow> None | Some d \<Rightarrow> hex_digits_int (16 * acc + int d) cs)"

definition int_base16 :: "string \<Rightarrow> int option" where
  "int_base16 text = (if text = [] then None else hex_digits_int 0 text)"

definition table_recover ::
  "((bytes \<times> int) \<times> string) list \<Rightarrow> int \<Rightarrow> int \<Rightarrow> int \<Rightarrow> bytes \<Rightarrow> string option" where
  "table_recover table recovery_id r s hash_bytes = map_of table (hash_bytes, recovery_id)"

section \<open>The library functions\<close>

subsection \<open>Keccak-256\<close>

text \<open>
  Modelled from the spec: \<open>keccak\<close> is imported from the \<open>eth_utils\<close> library, which is not
  part of the repository; the specification names it "the 32-byte Keccak-256 digest".
  This is the Keccak sponge with rate 1088 bits (136 bytes), capacity 512, the original
  \<open>pad10*1\<close> padding (first padding byte \<open>0x01\<close>) and 256 bits of output. A lane is the list of
  its 64 bits, least significant first; the state is five rows of five lanes, row \<open>y\<close>
  holding the lanes \<open>(0, y) \<dots> (4, y)\<close>.
\<close>

type_synonym lane = "bool list"
type_synonym keccak_state = "lane list list"

definition rotl64 :: "lane \<Rightarrow> nat \<Rightarrow> lane" where
  "rotl64 v n = drop (64 - n) v @ take (64 - n) v"

definition xor_lane :: "lane \<Rightarrow> lane \<Rightarrow> lane" where
  "xor_lane v w = map2 (\<noteq>) v w"

definition and_not_lane :: "lane \<Rightarrow> lane \<Rightarrow> lane" where
  "and_not_lane v w = map2 (\<lambda>a b. \<not> a \<and> b) v w"

definition xor_row :: "lane list \<Rightarrow> lane list \<Rightarrow> lane list" where
  "xor_row r1 r2 = map2 xor_lane r1 r2"

definition zero_lane :: lane where
  "zero_lane = replicate 64 False"

fun theta_D :: "lane list \<Rightarrow> lane list" where
  "theta_D [c0, c1, c2, c3, c4] =
     [xor_lane c4 (rotl64 c1 1), xor_lane c0 (rotl64 c2 1), xor_lane c1 (rotl64 c3 1),
      xor_lane c2 (rotl64 c4 1), xor_lane c3 (rotl64 c0 1)]"
| "theta_D cs = cs"

definition theta :: "keccak_state \<Rightarrow> keccak_state" where
  "theta rows = map (xor_row (theta_D (foldr xor_row rows (replicate 5 zero_lane)))) rows"

text \<open>The rotation offsets \<open>r[x][y]\<close>.\<close>

definition rotation_offsets :: "nat list list" where
  "rotation_offsets =
     [ [0, 36, 3, 41, 18], [1, 44, 10, 45, 2], [62, 6, 43, 15, 61],
       [28, 55, 25, 21, 56], [27, 20, 39, 8, 14] ]"

text \<open>
  \<open>B[y, 2x + 3y] = rot(A[x, y], r[x, y])\<close>: the lane at \<open>(X, Y)\<close> of the result comes from
  \<open>x = X + 3Y mod 5\<close>, \<open>y = X\<close>.
\<close>

definition rho_pi_lane :: "keccak_state \<Rightarrow> nat \<Rightarrow> nat \<Rightarrow> lane" where
  "rho_pi_lane rows Y X =
     rotl64 (rows ! X ! ((X + 3 * Y) mod 5)) (rotation_offsets ! ((X + 3 * Y) mod 5) ! X)"

definition rho_pi :: "keccak_state \<Rightarrow> keccak_state" where
  "rho_pi rows = map (\<lambda>Y. map (rho_pi_lane rows Y) [0 ..< 5]) [0 ..< 5]"

fun chi_row :: "lane list \<Rightarrow> lane list" where
  "chi_row [b0, b1, b2, b3, b4] =
     [xor_lane b0 (and_not_lane b1 b2), xor_lane b1 (and_not_lane b2 b3),
      xor_lane b2 (and_not_lane b3 b4), xor_lane b3 (and_not_lane b4 b0),
      xor_lane b4 (and_not_lane b0 b1)]"
| "chi_row bs = bs"

fun iota :: "lane \<Rightarrow> keccak_state \<Rightarrow> keccak_state" where
  "iota rc ((a # row) # rows) = (xor_lane a rc # row) # rows"
| "iota rc rows = rows"

fun bits_of :: "nat \<Rightarrow> int \<Rightarrow> bool list" where
  "bits_of 0 v = []"
| "bits_of (Suc k) v = (v mod 2 = 1) # bits_of k (v div 2)"

fun int_of_bits :: "bool list \<Rightarrow> int" where
  "int_of_bits [] = 0"
| "int_of_bits (b # bs) = (if b then 1 else 0) + 2 * int_of_bits bs"

definition round_constants :: "int list" where
  "round_constants =
    [0x0000000000000001, 0x0000000000008082, 0x800000000000808A, 0x8000000080008000,
     0x000000000000808B, 0x0000000080000001, 0x8000000080008081, 0x8000000000008009,
     0x000000000000008A, 0x0000000000000088, 0x0000000080008009, 0x000000008000000A,
     0x000000008000808B, 0x800000000000008B, 0x8000000000008089, 0x8000000000008003,
     0x8000000000008002, 0x8000000000000080, 0x000000000000800A, 0x800000008000000A,
     0x8000000080008081, 0x8000000000008080, 0x0000000080000001, 0x8000000080008008]"

definition keccak_round :: "keccak_state \<Rightarrow> int \<Rightarrow> keccak_state" where
  "keccak_round st rc = iota (bits_of 64 rc) (map chi_row (rho_pi (theta st)))"

definition keccak_f :: "keccak_state \<Rightarrow> keccak_state" where
  "keccak_f st = foldl keccak_round st round_constants"

fun chunks :: "nat \<Rightarrow> nat \<Rightarrow> 'a list \<Rightarrow> 'a list list" where
  "chunks 0 n xs = []"
| "chunks (Suc k) n xs = take n xs # chunks k n (drop n xs)"

definition keccak_pad :: "bytes \<Rightarrow> bytes" where
  "keccak_pad m =
     (if length m mod 136 = 135 then m @ [0x81]
      else m @ [0x01] @ replicate (134 - length m mod 136) 0 @ [0x80])"

definition bits_of_bytes :: "bytes \<Rightarrow> bool list" where
  "bits_of_bytes bs = concat (map (\<lambda>b. bits_of 8 (uint b)) bs)"

definition byte_of_bits :: "bool list \<Rightarrow> byte" where
  "byte_of_bits bits = word_of_int (int_of_bits bits)"

text \<open>A block of 136 bytes as a state: 17 lanes of input, 8 lanes of zeros.\<close>

definition block_state :: "bytes \<Rightarrow> keccak_state" where
  "block_state block = chunks 5 5 (chunks 17 64 (bits_of_bytes block) @ replicate 8 zero_lane)"

definition absorb :: "keccak_state \<Rightarrow> bytes \<Rightarrow> keccak_state" where
  "absorb st block = keccak_f (map2 xor_row st (block_state block))"

text \<open>The digest is the first four lanes of the final state, as 32 bytes.\<close>

definition keccak256 :: "bytes \<Rightarrow> bytes" where
  "keccak256 m =
     map byte_of_bits (chunks 32 8 (concat (take 4 (concat
       (foldl absorb (replicate 5 (replicate 5 zero_lane))
          (chunks (length (keccak_pad m) div 136) 136 (keccak_pad m)))))))"

subsection \<open>Points of secp256k1\<close>

text \<open>
  Modelled from the spec: \<open>keys.PublicKey.from_compressed_bytes(b).to_bytes()\<close> belongs to the
  \<open>eth_keys\<close> library, which is not part of the repository. The specification describes its
  result: a public key is a point of secp256k1 "represented canonically as 64 raw bytes
  (X\<parallel>Y, big-endian, no prefix)" whose coordinates "satisfy the curve equation", and the
  compressed form carries \<open>0x02\<close> or \<open>0x03\<close> (the parity of \<open>Y\<close>) in front of \<open>X\<close>.
\<close>

definition secp256k1_p :: int where
  "secp256k1_p = 0xFFFFFFFFFFFFFFFFFFFFFFFFFFFFFFFFFFFFFFFFFFFFFFFFFFFFFFFEFFFFFC2F"

fun big_endian_int :: "int \<Rightarrow> bytes \<Rightarrow> int" where
  "big_endian_int acc [] = acc"
| "big_endian_int acc (b # bs) = big_endian_int (256 * acc + uint b) bs"

definition on_curve :: "bytes \<Rightarrow> bool" where
  "on_curve raw =
     (length raw = 64 \<and>
      big_endian_int 0 (take 32 raw) < secp256k1_p \<and>
      big_endian_int 0 (drop 32 raw) < secp256k1_p \<and>
      (big_endian_int 0 (drop 32 raw) * big_endian_int 0 (drop 32 raw)) mod secp256k1_p =
        (big_endian_int 0 (take 32 raw) * big_endian_int 0 (take 32 raw)
           * big_endian_int 0 (take 32 raw) + 7) mod secp256k1_p)"

definition compress :: "bytes \<Rightarrow> bytes" where
  "compress raw = (if even (uint (last raw)) then 0x02 else 0x03) # take 32 raw"

definition uncompressed_prefixed :: "bytes \<Rightarrow> bytes" where
  "uncompressed_prefixed raw = 0x04 # raw"

text \<open>
  The two keys at which the compressed branch is evaluated below, with the points the
  library returns for them (both are checked against the curve equation): wallet 0 of the
  card, \<open>032c6f57\<dots>f6df\<close>, and the point with \<open>X = 0x0400\<dots>04\<close> and even \<open>Y\<close>.
  \<open>known_point_decompress\<close> stands for the library at these two keys only; it says nothing
  about the library at any other key, and no result below rests on its value there.
\<close>

definition wallet0_point :: bytes where
  "wallet0_point =
     [0x2c, 0x6f, 0x57, 0x53, 0x45, 0xba, 0xfa, 0x41, 0x22, 0x7d, 0x80, 0x2a, 0xfa, 0xa2, 0x51, 0xf9,
      0xfd, 0x1d, 0x56, 0x13, 0xa0, 0xf7, 0x29, 0xb4, 0x6a, 0x20, 0x0a, 0xc9, 0x0a, 0x92, 0xf6, 0xdf,
      0x02, 0x8c, 0x09, 0x87, 0xe9, 0x1b, 0x87, 0xf0, 0x11, 0x14, 0x5a, 0xff, 0xfd, 0x9f, 0xeb, 0xa5,
      0x0e, 0xbc, 0xaa, 0x59, 0x8e, 0x6b, 0x66, 0x0e, 0xf4, 0x81, 0xa9, 0x55, 0x7b, 0x1d, 0xed, 0xe1]"

definition x04_point :: bytes where
  "x04_point =
     [0x04, 0x00, 0x00, 0x00, 0x00, 0x00, 0x00, 0x00, 0x00, 0x00, 0x00, 0x00, 0x00, 0x00, 0x00, 0x00,
      0x00, 0x00, 0x00, 0x00, 0x00, 0x00, 0x00, 0x00, 0x00, 0x00, 0x00, 0x00, 0x00, 0x00, 0x00, 0x04,
      0x64, 0xcf, 0x32, 0x10, 0x98, 0xa6, 0x7c, 0xb1, 0x5b, 0xbb, 0xb8, 0x8b, 0x6f, 0x6f, 0x0a, 0x44,
      0x91, 0x6d, 0x3b, 0x5a, 0xd5, 0x74, 0xc2, 0x5e, 0xd4, 0x83, 0x99, 0xec, 0xfa, 0x93, 0xdd, 0x86]"

definition known_point_decompress :: "bytes \<Rightarrow> bytes option" where
  "known_point_decompress public_key_bytes =
     (if public_key_bytes = compress wallet0_point then Some wallet0_point
      else if public_key_bytes = compress x04_point then Some x04_point
      else None)"

section \<open>Hexadecimal text\<close>

lemma lt16_cases:
  "(n::nat) < 16 \<Longrightarrow> n \<in> {0, 1, 2, 3, 4, 5, 6, 7, 8, 9, 10, 11, 12, 13, 14, 15}"
  by (simp only: insert_iff empty_iff) arith

lemma hex_value_hex_digit: "n < 16 \<Longrightarrow> hex_value (hex_digit n) = Some n"
  using lt16_cases [of n] by (auto simp: hex_value_def hex_digit_def)

lemma hex_digit_not_space: "n < 16 \<Longrightarrow> \<not> is_space (hex_digit n)"
  using lt16_cases [of n] by (auto simp: is_space_def hex_digit_def)

lemma hex_digit_not_x: "n < 16 \<Longrightarrow> hex_digit n \<noteq> CHR ''x''"
  using lt16_cases [of n] by (auto simp: hex_digit_def)

lemma unat_byte_div16: "unat (b :: byte) div 16 < 16"
proof -
  have "unat b < 2 ^ LENGTH(8)" by (rule unsigned_less)
  then show ?thesis by simp
qed

lemma bytes_fromhex_hex_of_byte:
  "bytes_fromhex (hex_of_byte b @ cs) = map_option ((#) b) (bytes_fromhex cs)"
  by (simp add: hex_of_byte_def hex_digit_not_space hex_value_hex_digit unat_byte_div16)

lemma bytes_fromhex_bytes_hex: "bytes_fromhex (bytes_hex bs) = Some bs"
  by (induction bs) (simp_all add: bytes_hex_def bytes_fromhex_hex_of_byte)

lemma length_bytes_hex: "length (bytes_hex bs) = 2 * length bs"
  by (induction bs) (simp_all add: bytes_hex_def hex_of_byte_def)

lemma strip_0x_bytes_hex: "strip_0x (bytes_hex bs) = bytes_hex bs"
  by (cases bs) (simp_all add: strip_0x_def bytes_hex_def hex_of_byte_def hex_digit_not_x)

lemma bytes_hex_Cons_04: "''04'' @ bytes_hex bs = bytes_hex (0x04 # bs)"
  by (simp add: bytes_hex_def hex_of_byte_def hex_digit_def)

lemma bytes_fromhex_04:
  "bytes_fromhex (CHR ''0'' # CHR ''4'' # bytes_hex bs) = Some (0x04 # bs)"
  using bytes_fromhex_bytes_hex [of "0x04 # bs"]
  by (simp add: bytes_hex_def hex_of_byte_def hex_digit_def)

lemma bytes_hex_inject: "bytes_hex a = bytes_hex b \<Longrightarrow> a = b"
  by (metis bytes_fromhex_bytes_hex option.inject)

section \<open>The branches of the address derivation\<close>

lemma uncompressed_all_wallets_33:
  "length bs = 33 \<Longrightarrow>
   uncompressed_bytes_all_wallets fc (bytes_hex bs) =
     (case fc bs of None \<Rightarrow> Inl (Error LibraryError) | Some u \<Rightarrow> Inr u)"
  by (simp add: uncompressed_bytes_all_wallets_def strip_0x_bytes_hex length_bytes_hex
      bytes_fromhex_bytes_hex)

lemma uncompressed_all_wallets_64:
  "length bs = 64 \<Longrightarrow> uncompressed_bytes_all_wallets fc (bytes_hex bs) = Inr (0x04 # bs)"
  by (simp add: uncompressed_bytes_all_wallets_def Let_def strip_0x_bytes_hex length_bytes_hex
      bytes_fromhex_04 del: bytes_fromhex.simps)

lemma uncompressed_all_wallets_65:
  "length bs = 65 \<Longrightarrow> uncompressed_bytes_all_wallets fc (bytes_hex bs) = Inr bs"
  by (simp add: uncompressed_bytes_all_wallets_def strip_0x_bytes_hex length_bytes_hex
      bytes_fromhex_bytes_hex)


lemma uncompressed_key_derivation_33:
  "length bs = 33 \<Longrightarrow>
   uncompressed_bytes_key_derivation fc (bytes_hex bs) True =
     (case fc bs of None \<Rightarrow> Inl (Error LibraryError) | Some u \<Rightarrow> Inr u)"
  by (simp add: uncompressed_bytes_key_derivation_def strip_0x_bytes_hex length_bytes_hex
      bytes_fromhex_bytes_hex)

lemma uncompressed_key_derivation_65:
  "length bs = 65 \<Longrightarrow> uncompressed_bytes_key_derivation fc (bytes_hex bs) c = Inr bs"
  by (simp add: uncompressed_bytes_key_derivation_def strip_0x_bytes_hex length_bytes_hex
      bytes_fromhex_bytes_hex)


lemma derive_all_wallets_normalized:
  "derive_address_from_public_key_all_wallets keccak fc s =
     (case normalized_key_all_wallets fc s of
        Inl r \<Rightarrow> r | Inr key \<Rightarrow> Address (address_string keccak key))"
  by (simp add: derive_address_from_public_key_all_wallets_def normalized_key_all_wallets_def
      address_of_uncompressed_def split: sum.splits)

lemma derive_key_derivation_normalized:
  "derive_address_from_public_key_key_derivation keccak fc s c =
     (case normalized_key_key_derivation fc s c of
        Inl r \<Rightarrow> r | Inr key \<Rightarrow> Address (address_string keccak key))"
  by (simp add: derive_address_from_public_key_key_derivation_def
      normalized_key_key_derivation_def address_of_uncompressed_def split: sum.splits)

lemma normalized_all_wallets_64:
  "length key = 64 \<Longrightarrow> normalized_key_all_wallets fc (bytes_hex key) = Inr key"
  by (simp add: normalized_key_all_wallets_def uncompressed_all_wallets_64 strip_prefix_def)

lemma normalized_all_wallets_65:
  "length key = 64 \<Longrightarrow>
   normalized_key_all_wallets fc (bytes_hex (b # key)) = Inr (if b = 0x04 then key else b # key)"
  by (simp add: normalized_key_all_wallets_def uncompressed_all_wallets_65 strip_prefix_def)

lemma normalized_key_derivation_65:
  "length key = 64 \<Longrightarrow>
   normalized_key_key_derivation fc (bytes_hex (b # key)) c =
     Inr (if b = 0x04 then key else b # key)"
  by (simp add: normalized_key_key_derivation_def uncompressed_key_derivation_65 strip_prefix_def)

lemma normalized_all_wallets_33:
  "length bs = 33 \<Longrightarrow> fc bs = Some (b # rest) \<Longrightarrow>
   normalized_key_all_wallets fc (bytes_hex bs) = Inr (if b = 0x04 then rest else b # rest)"
  by (simp add: normalized_key_all_wallets_def uncompressed_all_wallets_33 strip_prefix_def)

lemma normalized_key_derivation_33:
  "length bs = 33 \<Longrightarrow> fc bs = Some (b # rest) \<Longrightarrow>
   normalized_key_key_derivation fc (bytes_hex bs) True =
     Inr (if b = 0x04 then rest else b # rest)"
  by (simp add: normalized_key_key_derivation_def uncompressed_key_derivation_33 strip_prefix_def)

lemma py_last_20_of_32: "length h = 32 \<Longrightarrow> py_last 20 h = drop 12 h"
  by (simp add: py_last_def)

section \<open>The search returns the first matching trial\<close>

lemma first_match_append:
  "first_match f (xs @ ys) = (case first_match f xs of Some m \<Rightarrow> Some m | None \<Rightarrow> first_match f ys)"
  by (induction xs) (simp_all split: option.splits)

lemma first_match_None_iff: "first_match f ts = None \<longleftrightarrow> (\<forall>t \<in> set ts. f t = None)"
  by (induction ts) (auto split: option.splits)

lemma first_match_Some_iff:
  "first_match f ts = Some m \<longleftrightarrow>
     (\<exists>i < length ts. f (ts ! i) = Some m \<and> (\<forall>j < i. f (ts ! j) = None))"
proof (induction ts)
  case Nil
  then show ?case by simp
next
  case (Cons t ts)
  show ?case
  proof (cases "f t")
    case None
    have "(\<exists>i < length (t # ts). f ((t # ts) ! i) = Some m \<and> (\<forall>j < i. f ((t # ts) ! j) = None))
       \<longleftrightarrow> (\<exists>i < length ts. f (ts ! i) = Some m \<and> (\<forall>j < i. f (ts ! j) = None))"
      (is "?L \<longleftrightarrow> ?R")
    proof
      assume ?L
      then obtain i where i: "i < length (t # ts)" "f ((t # ts) ! i) = Some m"
        "\<forall>j < i. f ((t # ts) ! j) = None" by blast
      from None i(2) obtain k where k: "i = Suc k" by (cases i) auto
      have "\<forall>j < k. f (ts ! j) = None"
      proof (intro allI impI)
        fix j assume "j < k"
        then have "Suc j < i" using k by simp
        then have "f ((t # ts) ! Suc j) = None" using i(3) by blast
        then show "f (ts ! j) = None" by simp
      qed
      with i k show ?R by auto
    next
      assume ?R
      then obtain i where i: "i < length ts" "f (ts ! i) = Some m" "\<forall>j < i. f (ts ! j) = None"
        by blast
      have "\<forall>j < Suc i. f ((t # ts) ! j) = None"
      proof (intro allI impI)
        fix j assume "j < Suc i"
        then show "f ((t # ts) ! j) = None" using None i(3) by (cases j) auto
      qed
      with i show ?L by (intro exI [of _ "Suc i"]) simp
    qed
    with None Cons show ?thesis by simp
  next
    case (Some m')
    have "(\<exists>i < length (t # ts). f ((t # ts) ! i) = Some m \<and> (\<forall>j < i. f ((t # ts) ! j) = None))
       \<longleftrightarrow> m' = m"
    proof
      assume "\<exists>i < length (t # ts). f ((t # ts) ! i) = Some m \<and> (\<forall>j < i. f ((t # ts) ! j) = None)"
      then obtain i where i: "f ((t # ts) ! i) = Some m" "\<forall>j < i. f ((t # ts) ! j) = None"
        by blast
      show "m' = m"
      proof (cases i)
        case 0
        with i Some show ?thesis by simp
      next
        case (Suc k)
        then have "f ((t # ts) ! 0) = None" using i(2) by blast
        with Some show ?thesis by simp
      qed
    next
      assume "m' = m"
      with Some show "\<exists>i < length (t # ts). f ((t # ts) ! i) = Some m \<and> (\<forall>j < i. f ((t # ts) ! j) = None)"
        by (intro exI [of _ 0]) simp
    qed
    with Some show ?thesis by simp
  qed
qed

lemma first_match_filter:
  "(\<And>t. \<not> P t \<Longrightarrow> f t = None) \<Longrightarrow> first_match f (filter P ts) = first_match f ts"
  by (induction ts) (auto split: option.splits)

lemma snd_try_v_values:
  "snd (try_v_values int16 rec r_hex s_hex expected name hash_bytes vs) =
     first_match (trial_result int16 rec r_hex s_hex expected) (map (\<lambda>v. (name, v, hash_bytes)) vs)"
  by (induction vs) (simp_all add: trial_result_def case_prod_beta split: option.splits)

lemma trials_Cons:
  "trials ((name, hash_bytes) # cands) =
     map (\<lambda>v. (name, v, hash_bytes)) [27, 28] @ trials cands"
  by (simp add: trials_def)

lemma snd_test_candidates:
  "snd (test_candidates int16 rec r_hex s_hex expected i cands) =
     first_match (trial_result int16 rec r_hex s_hex expected) (trials cands)"
proof (induction cands arbitrary: i)
  case Nil
  then show ?case by (simp add: trials_def)
next
  case (Cons c cands)
  obtain name hash_bytes where c: "c = (name, hash_bytes)" by (cases c)
  have step: "snd (test_candidates int16 rec r_hex s_hex expected i ((name, hash_bytes) # cands)) =
      (case snd (try_v_values int16 rec r_hex s_hex expected name hash_bytes [27, 28]) of
         Some m \<Rightarrow> Some m
       | None \<Rightarrow> snd (test_candidates int16 rec r_hex s_hex expected (Suc i) cands))"
    by (cases "try_v_values int16 rec r_hex s_hex expected name hash_bytes [27, 28]")
      (simp add: case_prod_beta del: try_v_values.simps split: option.splits)
  show ?case
    unfolding c step trials_Cons first_match_append snd_try_v_values Cons.IH ..
qed

lemma snd_verify:
  "snd (verify_signature_recovery int16 rec signature_hex cands expected) =
     (case signature_components signature_hex of
        Inl n \<Rightarrow> None
      | Inr (r_hex, s_hex, v_hex) \<Rightarrow>
          first_match (trial_result int16 rec r_hex s_hex expected) (trials cands))"
  by (simp add: verify_signature_recovery_def snd_test_candidates case_prod_beta
      split: sum.splits)

lemma trials_nth:
  "k < length cands \<Longrightarrow>
   trials cands ! (2 * k) = (fst (cands ! k), 27, snd (cands ! k)) \<and>
   trials cands ! (2 * k + 1) = (fst (cands ! k), 28, snd (cands ! k))"
proof (induction cands arbitrary: k)
  case Nil
  then show ?case by simp
next
  case (Cons c cands)
  obtain name hash_bytes where c: "c = (name, hash_bytes)" by (cases c)
  show ?case
  proof (cases k)
    case 0
    then show ?thesis by (simp add: c trials_Cons)
  next
    case (Suc k')
    with Cons.prems have "k' < length cands" by simp
    from Cons.IH [OF this] Suc show ?thesis by (simp add: c trials_Cons)
  qed
qed

lemma length_trials: "length (trials cands) = 2 * length cands"
  by (induction cands) (auto simp: trials_def)

section \<open>The report of the search\<close>

lemma try_v_values_no_match:
  "trial_result int16 rec r_hex s_hex expected (name, 27, hash_bytes) = None \<Longrightarrow>
   trial_result int16 rec r_hex s_hex expected (name, 28, hash_bytes) = None \<Longrightarrow>
   try_v_values int16 rec r_hex s_hex expected name hash_bytes [27, 28] =
     ([trial_event int16 rec r_hex s_hex hash_bytes 27,
       trial_event int16 rec r_hex s_hex hash_bytes 28], None)"
  by (auto simp: trial_result_def trial_event_def split: option.splits if_splits)

lemma test_candidates_exhausted:
  "\<forall>t \<in> set (trials cands). trial_result int16 rec r_hex s_hex expected t = None \<Longrightarrow>
   test_candidates int16 rec r_hex s_hex expected i cands =
     (exhausted_report int16 rec r_hex s_hex i cands, None)"
proof (induction cands arbitrary: i)
  case Nil
  then show ?case by simp
next
  case (Cons c cands)
  obtain name hash_bytes where c: "c = (name, hash_bytes)" by (cases c)
  from Cons.prems have a: "trial_result int16 rec r_hex s_hex expected (name, 27, hash_bytes) = None"
    and b: "trial_result int16 rec r_hex s_hex expected (name, 28, hash_bytes) = None"
    and rest: "\<forall>t \<in> set (trials cands). trial_result int16 rec r_hex s_hex expected t = None"
    by (simp_all add: c trials_Cons)
  show ?case
    unfolding c
    by (simp add: try_v_values_no_match [OF a b] Cons.IH [OF rest] del: try_v_values.simps)
qed

lemma try_v_values_no_length_event:
  "InvalidSignatureLength n \<notin> set (fst (try_v_values int16 rec r_hex s_hex expected name hash_bytes vs))"
  by (induction vs) (auto simp: case_prod_beta split: option.splits)

lemma test_candidates_no_length_event:
  "InvalidSignatureLength n \<notin> set (fst (test_candidates int16 rec r_hex s_hex expected i cands))"
proof (induction cands arbitrary: i)
  case Nil
  then show ?case by simp
next
  case (Cons c cands)
  obtain name hash_bytes where c: "c = (name, hash_bytes)" by (cases c)
  show ?case
    unfolding c
    using try_v_values_no_length_event [of n int16 rec r_hex s_hex expected name hash_bytes "[27, 28]"]
      Cons.IH [of "Suc i"]
    by (cases "try_v_values int16 rec r_hex s_hex expected name hash_bytes [27, 28]")
      (auto simp add: case_prod_beta simp del: try_v_values.simps split: option.splits)
qed

lemma try_v_values_match_last:
  "try_v_values int16 rec r_hex s_hex expected name hash_bytes vs = (log, Some m) \<Longrightarrow>
   log \<noteq> [] \<and> last log = MatchFound (fst m)"
proof (induction vs arbitrary: log)
  case Nil
  then show ?case by simp
next
  case (Cons v vs)
  obtain log' res' where r: "try_v_values int16 rec r_hex s_hex expected name hash_bytes vs = (log', res')"
    by (cases "try_v_values int16 rec r_hex s_hex expected name hash_bytes vs")
  from Cons.prems r Cons.IH [of log'] show ?case
    by (auto split: option.splits if_splits)
qed

lemma test_candidates_match_last:
  "test_candidates int16 rec r_hex s_hex expected i cands = (log, Some m) \<Longrightarrow>
   log \<noteq> [] \<and> last log = MatchFound (fst m)"
proof (induction cands arbitrary: i log)
  case Nil
  then show ?case by simp
next
  case (Cons c cands)
  obtain name hash_bytes where c: "c = (name, hash_bytes)" by (cases c)
  obtain l1 r1 where t: "try_v_values int16 rec r_hex s_hex expected name hash_bytes [27, 28] = (l1, r1)"
    by (cases "try_v_values int16 rec r_hex s_hex expected name hash_bytes [27, 28]")
  obtain l2 r2 where u: "test_candidates int16 rec r_hex s_hex expected (Suc i) cands = (l2, r2)"
    by (cases "test_candidates int16 rec r_hex s_hex expected (Suc i) cands")
  show ?case
  proof (cases r1)
    case None
    with Cons.prems c t u have "log = TestHeader i name hash_bytes # l1 @ l2" "r2 = Some m"
      by (simp_all del: try_v_values.simps)
    moreover from Cons.IH [of "Suc i" l2] u \<open>r2 = Some m\<close>
    have "l2 \<noteq> [] \<and> last l2 = MatchFound (fst m)" by simp
    ultimately show ?thesis by simp
  next
    case (Some m')
    with Cons.prems c t have "log = TestHeader i name hash_bytes # l1" "m' = m"
      by (simp_all del: try_v_values.simps)
    moreover from try_v_values_match_last [of int16 rec r_hex s_hex expected name hash_bytes "[27, 28]" l1 m'] t Some
    have "l1 \<noteq> [] \<and> last l1 = MatchFound (fst m')" by simp
    ultimately show ?thesis by simp
  qed
qed

lemma verify_match_last:
  "snd (verify_signature_recovery int16 rec signature_hex cands expected) = Some m \<Longrightarrow>
   last (fst (verify_signature_recovery int16 rec signature_hex cands expected)) = MatchFound (fst m)"
proof (cases "signature_components signature_hex")
  case (Inl n)
  assume "snd (verify_signature_recovery int16 rec signature_hex cands expected) = Some m"
  with Inl show ?thesis by (simp add: verify_signature_recovery_def)
next
  case (Inr c)
  assume a: "snd (verify_signature_recovery int16 rec signature_hex cands expected) = Some m"
  obtain r_hex s_hex v_hex where c: "c = (r_hex, s_hex, v_hex)" by (cases c)
  obtain log res where t: "test_candidates int16 rec r_hex s_hex expected 1 cands = (log, res)"
    by (cases "test_candidates int16 rec r_hex s_hex expected 1 cands")
  from a Inr c t have "res = Some m" by (simp add: verify_signature_recovery_def)
  with test_candidates_match_last [of int16 rec r_hex s_hex expected 1 cands log m] t
  have "log \<noteq> [] \<and> last log = MatchFound (fst m)" by simp
  with Inr c t show ?thesis by (simp add: verify_signature_recovery_def)
qed

section \<open>Cutting the signature text\<close>

lemma signature_components_prefixed:
  "length rs = 128 \<Longrightarrow> length v = 2 \<Longrightarrow>
   signature_components (''0x'' @ rs @ v) = Inr (take 64 rs, drop 64 rs, v)"
  by (simp add: signature_components_def strip_0x_def)

lemma signature_components_plain:
  "length rs = 128 \<Longrightarrow> length v = 2 \<Longrightarrow>
   signature_components (rs @ v) =
     (if take 2 rs = ''0x'' then Inl 128 else Inr (take 64 rs, drop 64 rs, v))"
  by (simp add: signature_components_def strip_0x_def)

section \<open>Claims about the recovery search\<close>

text \<open>
  C2: the search goes through the candidates in input order and, for each candidate, tries
  \<open>v_int = 27\<close> (recovery id 0) before \<open>v_int = 28\<close> (recovery id 1); it returns the
  first trial in that order whose recovered address equals the expected address, so no
  later trial is returned when an earlier one matches. Trial \<open>2k\<close> of the list is candidate
  \<open>k\<close> with 27, trial \<open>2k + 1\<close> is candidate \<open>k\<close> with 28; the function returns \<open>m\<close> exactly
  when some trial yields \<open>m\<close> and every trial before it yields nothing, and the report then
  ends with the line of that match: nothing is tried after it.
\<close>

theorem first_match_wins:
  assumes "signature_components signature_hex = Inr (r_hex, s_hex, v_hex)"
  shows "(snd (verify_signature_recovery int16 rec signature_hex cands expected) = Some m \<longleftrightarrow>
           (\<exists>i < length (trials cands).
              trial_result int16 rec r_hex s_hex expected (trials cands ! i) = Some m \<and>
              (\<forall>j < i. trial_result int16 rec r_hex s_hex expected (trials cands ! j) = None))) \<and>
         (\<forall>k < length cands.
            trials cands ! (2 * k) = (fst (cands ! k), 27, snd (cands ! k)) \<and>
            trials cands ! Suc (2 * k) = (fst (cands ! k), 28, snd (cands ! k))) \<and>
         (snd (verify_signature_recovery int16 rec signature_hex cands expected) = Some m \<longrightarrow>
            last (fst (verify_signature_recovery int16 rec signature_hex cands expected)) =
              MatchFound (fst m))"
  using assms trials_nth [of _ cands] verify_match_last [of int16 rec signature_hex cands expected m]
  by (simp add: snd_verify first_match_Some_iff)

text \<open>
  The example of the specification: candidates \<open>A\<close>, \<open>B\<close>; \<open>A\<close> with 27 recovers another
  address, \<open>A\<close> with 28 and both trials of \<open>B\<close> recover the expected one (in checksum
  case). The answer is \<open>A\<close> with 28.
\<close>

theorem first_match_wins_witness:
  "signature_components (replicate 128 (CHR ''1'') @ ''1c'') =
     Inr (replicate 64 (CHR ''1''), replicate 64 (CHR ''1''), ''1c'') \<and>
   snd (verify_signature_recovery int_base16
          (table_recover [(([0x0a], 0), ''0x9F''), (([0x0a], 1), ''0xE1''),
                          (([0x0b], 0), ''0xE1''), (([0x0b], 1), ''0xE1'')])
          (replicate 128 (CHR ''1'') @ ''1c'') [(''A'', [0x0a]), (''B'', [0x0b])] ''0xe1'')
     = Some (''A'', 28, ''0xE1'')"
proof -
  let ?rec = "table_recover [(([0x0a], 0), ''0x9F''), (([0x0a], 1), ''0xE1''),
                          (([0x0b], 0), ''0xE1''), (([0x0b], 1), ''0xE1'')]"
  let ?r = "replicate 64 (CHR ''1'')"
  have c: "signature_components (replicate 128 (CHR ''1'') @ ''1c'') = Inr (?r, ?r, ''1c'')"
    by code_simp
  have a0: "trial_result int_base16 ?rec ?r ?r ''0xe1'' (''A'', 27, [0x0a]) = None"
    by code_simp
  have a1: "trial_result int_base16 ?rec ?r ?r ''0xe1'' (''A'', 28, [0x0a]) = Some (''A'', 28, ''0xE1'')"
    by code_simp
  have "\<exists>i < length (trials [(''A'', [0x0a]), (''B'', [0x0b])]).
          trial_result int_base16 ?rec ?r ?r ''0xe1'' (trials [(''A'', [0x0a]), (''B'', [0x0b])] ! i)
            = Some (''A'', 28, ''0xE1'') \<and>
          (\<forall>j < i. trial_result int_base16 ?rec ?r ?r ''0xe1''
             (trials [(''A'', [0x0a]), (''B'', [0x0b])] ! j) = None)"
    by (rule exI [of _ 1]) (simp add: trials_def a0 a1)
  with first_match_wins [OF c] c show ?thesis by blast
qed

text \<open>
  C4: a trial whose recovery raises is reported (\<open>RecoveryFailed\<close>) and skipped, the search
  goes on with the remaining trials: the value returned is the first match among the
  trials whose recovery succeeded. When no trial yields the expected address the function
  returns \<open>None\<close> after having tried every candidate with both values. The only error the
  function reports itself, \<open>InvalidSignatureLength\<close>, is reported exactly when the signature
  text cannot be cut into its components; nothing is raised in either case.
\<close>

theorem recovery_failures_absorbed:
  "(case signature_components signature_hex of
      Inl n \<Rightarrow>
        verify_signature_recovery int16 rec signature_hex cands expected =
          ([InvalidSignatureLength n], None)
    | Inr (r_hex, s_hex, v_hex) \<Rightarrow>
        snd (verify_signature_recovery int16 rec signature_hex cands expected) =
          first_match (trial_result int16 rec r_hex s_hex expected)
            (filter (\<lambda>(name, v_int, hash_bytes).
                       recover_trial int16 rec r_hex s_hex hash_bytes v_int \<noteq> None)
               (trials cands)) \<and>
        (\<forall>n. InvalidSignatureLength n \<notin>
               set (fst (verify_signature_recovery int16 rec signature_hex cands expected))) \<and>
        ((\<forall>t \<in> set (trials cands). trial_result int16 rec r_hex s_hex expected t = None) \<longrightarrow>
           verify_signature_recovery int16 rec signature_hex cands expected =
             (SignatureAnalysis r_hex s_hex v_hex expected
                # exhausted_report int16 rec r_hex s_hex 1 cands, None)))"
proof (cases "signature_components signature_hex")
  case (Inl n)
  then show ?thesis by (simp add: verify_signature_recovery_def)
next
  case (Inr c)
  obtain r_hex s_hex v_hex where c: "c = (r_hex, s_hex, v_hex)" by (cases c)
  have skip: "first_match (trial_result int16 rec r_hex s_hex expected)
            (filter (\<lambda>(name, v_int, hash_bytes).
                       recover_trial int16 rec r_hex s_hex hash_bytes v_int \<noteq> None)
               (trials cands)) =
        first_match (trial_result int16 rec r_hex s_hex expected) (trials cands)"
    by (rule first_match_filter) (auto simp: trial_result_def)
  have res: "snd (verify_signature_recovery int16 rec signature_hex cands expected) =
      first_match (trial_result int16 rec r_hex s_hex expected) (trials cands)"
    by (simp add: snd_verify Inr c)
  have log: "InvalidSignatureLength n \<notin>
      set (fst (verify_signature_recovery int16 rec signature_hex cands expected))" for n
    using test_candidates_no_length_event [of n int16 rec r_hex s_hex expected 1 cands]
    by (simp add: verify_signature_recovery_def Inr c case_prod_beta)
  have ex: "verify_signature_recovery int16 rec signature_hex cands expected =
             (SignatureAnalysis r_hex s_hex v_hex expected
                # exhausted_report int16 rec r_hex s_hex 1 cands, None)"
    if "\<forall>t \<in> set (trials cands). trial_result int16 rec r_hex s_hex expected t = None"
    using test_candidates_exhausted [OF that, of 1]
    by (simp add: verify_signature_recovery_def Inr c)
  from skip res log ex show ?thesis by (simp add: Inr c)
qed

text \<open>
  Three runs: every recovery raises (all trials reported, \<open>None\<close>); only the last trial
  succeeds (it is reached and returned); a signature text of two characters.
\<close>

theorem recovery_failures_absorbed_witness:
  "verify_signature_recovery int_base16 (table_recover []) (replicate 128 (CHR ''1'') @ ''1c'')
      [(''A'', [0x0a]), (''B'', [0x0b])] ''0xe1'' =
     ([SignatureAnalysis (replicate 64 (CHR ''1'')) (replicate 64 (CHR ''1'')) ''1c'' ''0xe1'',
       TestHeader 1 ''A'' [0x0a], RecoveryFailed 27, RecoveryFailed 28,
       TestHeader 2 ''B'' [0x0b], RecoveryFailed 27, RecoveryFailed 28,
       NoCandidateMatched], None) \<and>
   snd (verify_signature_recovery int_base16 (table_recover [(([0x0b], 1), ''0xE1'')])
      (replicate 128 (CHR ''1'') @ ''1c'') [(''A'', [0x0a]), (''B'', [0x0b])] ''0xe1'') =
     Some (''B'', 28, ''0xE1'') \<and>
   verify_signature_recovery int_base16 (table_recover []) ''1c'' [(''A'', [0x0a])] ''0xe1'' =
     ([InvalidSignatureLength 2], None)"
proof -
  let ?r = "replicate 64 (CHR ''1'')"
  let ?cands = "[(''A'', [0x0a]), (''B'', [0x0b])]"
  have c: "signature_components (replicate 128 (CHR ''1'') @ ''1c'') = Inr (?r, ?r, ''1c'')"
    by code_simp
  have none: "\<forall>t \<in> set (trials ?cands). trial_result int_base16 (table_recover []) ?r ?r ''0xe1'' t = None"
    by (simp add: trials_def trial_result_def recover_trial_def table_recover_def split: option.splits)
  have rep: "exhausted_report int_base16 (table_recover []) ?r ?r 1 ?cands =
      [TestHeader 1 ''A'' [0x0a], RecoveryFailed 27, RecoveryFailed 28,
       TestHeader 2 ''B'' [0x0b], RecoveryFailed 27, RecoveryFailed 28, NoCandidateMatched]"
    by (simp add: trial_event_def recover_trial_def table_recover_def split: option.splits)
  have p1: "verify_signature_recovery int_base16 (table_recover []) (replicate 128 (CHR ''1'') @ ''1c'')
      ?cands ''0xe1'' = (SignatureAnalysis ?r ?r ''1c'' ''0xe1''
         # exhausted_report int_base16 (table_recover []) ?r ?r 1 ?cands, None)"
    using recovery_failures_absorbed [where signature_hex = "replicate 128 (CHR ''1'') @ ''1c''"
        and ?int16.0 = int_base16 and rec = "table_recover []" and cands = ?cands
        and expected = "''0xe1''"] none
    unfolding c by simp
  have f: "first_match (trial_result int_base16 (table_recover [(([0x0b], 1), ''0xE1'')]) ?r ?r ''0xe1'')
            (filter (\<lambda>(name, v_int, hash_bytes).
                       recover_trial int_base16 (table_recover [(([0x0b], 1), ''0xE1'')]) ?r ?r hash_bytes v_int \<noteq> None)
               (trials ?cands)) = Some (''B'', 28, ''0xE1'')"
    by code_simp
  have "snd (verify_signature_recovery int_base16 (table_recover [(([0x0b], 1), ''0xE1'')])
      (replicate 128 (CHR ''1'') @ ''1c'') ?cands ''0xe1'') =
      first_match (trial_result int_base16 (table_recover [(([0x0b], 1), ''0xE1'')]) ?r ?r ''0xe1'')
            (filter (\<lambda>(name, v_int, hash_bytes).
                       recover_trial int_base16 (table_recover [(([0x0b], 1), ''0xE1'')]) ?r ?r hash_bytes v_int \<noteq> None)
               (trials ?cands))"
    using recovery_failures_absorbed [where signature_hex = "replicate 128 (CHR ''1'') @ ''1c''"
        and ?int16.0 = int_base16 and rec = "table_recover [(([0x0b], 1), ''0xE1'')]"
        and cands = ?cands and expected = "''0xe1''"]
    by (simp only: c sum.case prod.case)
  then have p2: "snd (verify_signature_recovery int_base16 (table_recover [(([0x0b], 1), ''0xE1'')])
      (replicate 128 (CHR ''1'') @ ''1c'') ?cands ''0xe1'') = Some (''B'', 28, ''0xE1'')"
    by (simp only: f)
  have c3: "signature_components ''1c'' = Inl 2" by code_simp
  have p3: "verify_signature_recovery int_base16 (table_recover []) ''1c'' [(''A'', [0x0a])] ''0xe1'' =
     ([InvalidSignatureLength 2], None)"
    using recovery_failures_absorbed [where signature_hex = "''1c''" and ?int16.0 = int_base16
        and rec = "table_recover []" and cands = "[(''A'', [0x0a])]" and expected = "''0xe1''"]
    unfolding c3 by simp
  from p1 p2 p3 show ?thesis unfolding rep by blast
qed

text \<open>
  C9: the value returned by the search does not depend on the \<open>v\<close> byte of the signature.
  Two signature texts with the same 128 characters of \<open>r\<close> and \<open>s\<close> and any two-character
  \<open>v\<close>, with or without the \<open>0x\<close> prefix, give the same result for the same candidates
  and expected address; the reports agree after their first line, which prints \<open>v\<close>.
\<close>

theorem result_independent_of_v:
  assumes "length rs = 128" and "length v1 = 2" and "length v2 = 2"
  shows "snd (verify_signature_recovery int16 rec (rs @ v1) cands expected) =
         snd (verify_signature_recovery int16 rec (rs @ v2) cands expected) \<and>
         snd (verify_signature_recovery int16 rec (''0x'' @ rs @ v1) cands expected) =
         snd (verify_signature_recovery int16 rec (''0x'' @ rs @ v2) cands expected) \<and>
         tl (fst (verify_signature_recovery int16 rec (rs @ v1) cands expected)) =
         tl (fst (verify_signature_recovery int16 rec (rs @ v2) cands expected)) \<and>
         tl (fst (verify_signature_recovery int16 rec (''0x'' @ rs @ v1) cands expected)) =
         tl (fst (verify_signature_recovery int16 rec (''0x'' @ rs @ v2) cands expected))"
  using assms
  by (simp add: verify_signature_recovery_def signature_components_plain
      signature_components_prefixed case_prod_beta del: append.simps)

theorem result_independent_of_v_witness:
  "snd (verify_signature_recovery int_base16 (table_recover [(([0x0a], 1), ''0xE1'')])
      (replicate 128 (CHR ''1'') @ ''1b'') [(''A'', [0x0a])] ''0xe1'') =
   snd (verify_signature_recovery int_base16 (table_recover [(([0x0a], 1), ''0xE1'')])
      (replicate 128 (CHR ''1'') @ ''1c'') [(''A'', [0x0a])] ''0xe1'') \<and>
   snd (verify_signature_recovery int_base16 (table_recover [(([0x0a], 1), ''0xE1'')])
      (replicate 128 (CHR ''1'') @ ''1c'') [(''A'', [0x0a])] ''0xe1'') = Some (''A'', 28, ''0xE1'')"
proof -
  have v: "snd (verify_signature_recovery int_base16 (table_recover [(([0x0a], 1), ''0xE1'')])
      (replicate 128 (CHR ''1'') @ ''1c'') [(''A'', [0x0a])] ''0xe1'') = Some (''A'', 28, ''0xE1'')"
    by code_simp
  have "length (replicate 128 (CHR ''1'')) = 128" "length ''1b'' = 2" "length ''1c'' = 2"
    by simp_all
  from result_independent_of_v [OF this] v show ?thesis by blast
qed

text \<open>
  C7, as the code has it: the signature text is cut into \<open>r\<close>, \<open>s\<close> and \<open>v\<close> without \<open>v\<close>
  being interpreted; every two-character \<open>v\<close> is accepted and none is turned into a parity
  or refused. The recovery ids come from the fixed values \<open>v_int = 27, 28\<close> of the loop, as
  \<open>v_int - 27\<close>: 0 and 1.
\<close>

theorem v_not_interpreted:
  assumes "length rs = 128" and "length v = 2"
  shows "signature_components (''0x'' @ rs @ v) = Inr (take 64 rs, drop 64 rs, v) \<and>
         (take 2 rs \<noteq> ''0x'' \<longrightarrow>
            signature_components (rs @ v) = Inr (take 64 rs, drop 64 rs, v)) \<and>
         (\<forall>(name, v_int, hash_bytes) \<in> set (trials cands). v_int = 27 \<or> v_int = 28) \<and>
         (int16 r_hex = Some r \<and> int16 s_hex = Some s \<longrightarrow>
            recover_trial int16 rec r_hex s_hex hash_bytes 27 = rec 0 r s hash_bytes \<and>
            recover_trial int16 rec r_hex s_hex hash_bytes 28 = rec 1 r s hash_bytes)"
  using assms
  by (auto simp: signature_components_plain signature_components_prefixed trials_def
      recover_trial_def simp del: append.simps)

theorem v_not_interpreted_witness:
  "signature_components (''0x'' @ replicate 128 (CHR ''1'') @ ''1d'') =
     Inr (replicate 64 (CHR ''1''), replicate 64 (CHR ''1''), ''1d'') \<and>
   recover_trial int_base16 (table_recover [(([0x0a], 1), ''0xE1'')])
     ''11'' ''22'' [0x0a] 28 = Some ''0xE1''"
proof -
  have l: "length (replicate 128 (CHR ''1'')) = 128" "length ''1d'' = 2" by simp_all
  have i: "int_base16 ''11'' = Some 17 \<and> int_base16 ''22'' = Some 34" by code_simp
  have t: "table_recover [(([0x0a], 1), ''0xE1'')] 1 17 34 [0x0a] = Some ''0xE1''"
    by (simp add: table_recover_def)
  from v_not_interpreted [OF l, where ?int16.0 = int_base16 and r_hex = "''11''" and r = 17
      and s_hex = "''22''" and s = 34 and rec = "table_recover [(([0x0a], 1), ''0xE1'')]"
      and hash_bytes = "[0x0a]" and cands = "[]"] i t
  show ?thesis by simp
qed

text \<open>
  C7 as stated fails: a signature whose \<open>v\<close> byte is \<open>0x1d\<close> (29) is cut into its components
  and searched like any other, here with a match at \<open>v_int = 27\<close>.
\<close>

theorem v_29_counterexample:
  "signature_components (replicate 128 (CHR ''1'') @ ''1d'') =
     Inr (replicate 64 (CHR ''1''), replicate 64 (CHR ''1''), ''1d'') \<and>
   snd (verify_signature_recovery int_base16 (table_recover [(([0x0a], 0), ''0xE1'')])
      (replicate 128 (CHR ''1'') @ ''1d'') [(''A'', [0x0a])] ''0xe1'') = Some (''A'', 27, ''0xE1'')"
  by code_simp

section \<open>Evaluating the library models\<close>

lemma length_chunks: "length (chunks k n xs) = k"
  by (induction k arbitrary: xs) simp_all

lemma length_keccak256: "length (keccak256 m) = 32"
  by (simp add: keccak256_def length_chunks)

lemma address_wallet0:
  "address_string keccak256 wallet0_point = ''0x9fe13b041b6811b717b311fce887146972b20d6a''"
  by code_simp

lemma address_x04:
  "address_string keccak256 x04_point = ''0x1ea80676e86cd34fd4ce05f55462129a7e4115f9''"
  by code_simp

lemma address_x04_tail:
  "address_string keccak256 (tl x04_point) = ''0x8c224b425720f67a86baec77f383e40ecaf3b067''"
  by code_simp

lemma address_05_zeros:
  "address_string keccak256 (0x05 # replicate 64 0) = ''0xbf8ff1a7bddd6e755456a7dc31fea3cbc3e81bc1''"
  by code_simp


lemma on_curve_wallet0: "on_curve wallet0_point"
  by code_simp

lemma on_curve_x04: "on_curve x04_point"
  by code_simp


lemma compress_wallet0:
  "bytes_hex (compress wallet0_point) =
     ''032c6f575345bafa41227d802afaa251f9fd1d5613a0f729b46a200ac90a92f6df''"
  by code_simp

lemma compress_x04:
  "bytes_hex (compress x04_point) =
     ''020400000000000000000000000000000000000000000000000000000000000004''"
  by code_simp

lemma length_compress_wallet0: "length (compress wallet0_point) = 33"
  by (simp add: compress_def wallet0_point_def)

lemma length_compress_x04: "length (compress x04_point) = 33"
  by (simp add: compress_def x04_point_def)

lemma known_wallet0: "known_point_decompress (compress wallet0_point) = Some wallet0_point"
  by (simp add: known_point_decompress_def)

lemma known_x04: "known_point_decompress (compress x04_point) = Some x04_point"
  by code_simp

lemma strip_prefix_wallet0: "strip_prefix wallet0_point = Inr wallet0_point"
  by (simp add: strip_prefix_def wallet0_point_def)

lemma strip_prefix_x04: "strip_prefix x04_point = Inr (tl x04_point)"
  by (simp add: strip_prefix_def x04_point_def)


lemma bytes_hex_05_zeros: "bytes_hex (0x05 # replicate 64 0) = ''05'' @ replicate 128 (CHR ''0'')"
  by code_simp

lemma derive_all_wallets_33:
  "length bs = 33 \<Longrightarrow> fc bs = Some raw \<Longrightarrow>
   derive_address_from_public_key_all_wallets keccak fc (bytes_hex bs) =
     address_of_uncompressed keccak raw"
  by (simp add: derive_address_from_public_key_all_wallets_def uncompressed_all_wallets_33)

lemma derive_key_derivation_33:
  "length bs = 33 \<Longrightarrow> fc bs = Some raw \<Longrightarrow>
   derive_address_from_public_key_key_derivation keccak fc (bytes_hex bs) True =
     address_of_uncompressed keccak raw"
  by (simp add: derive_address_from_public_key_key_derivation_def uncompressed_key_derivation_33)

section \<open>Claims about the address derivation\<close>

text \<open>
  C1: for a 64-byte public key \<open>X\<parallel>Y\<close> the address is \<open>0x\<close> followed by the last 20 bytes
  of the 32-byte Keccak digest of those 64 bytes, that is the digest without its first 12
  bytes. This is what lines 33--39 (30--36) compute from the normalised key, and what the
  functions return when the key is given raw (\<open>test_all_wallets.py\<close>) or with the \<open>0x04\<close>
  prefix (both files).
\<close>

theorem last_20_bytes:
  assumes "length key = 64" and "length (keccak key) = 32"
  shows "address_string keccak key = ''0x'' @ bytes_hex (drop 12 (keccak key)) \<and>
         length (drop 12 (keccak key)) = 20 \<and>
         derive_address_from_public_key_all_wallets keccak fc (bytes_hex key) =
           Address (''0x'' @ bytes_hex (drop 12 (keccak key))) \<and>
         derive_address_from_public_key_all_wallets keccak fc (bytes_hex (uncompressed_prefixed key)) =
           Address (''0x'' @ bytes_hex (drop 12 (keccak key))) \<and>
         derive_address_from_public_key_key_derivation keccak fc
             (bytes_hex (uncompressed_prefixed key)) compressed =
           Address (''0x'' @ bytes_hex (drop 12 (keccak key)))"
  using assms
  by (simp add: derive_all_wallets_normalized derive_key_derivation_normalized
      normalized_all_wallets_64 normalized_all_wallets_65 normalized_key_derivation_65
      uncompressed_prefixed_def address_string_def py_last_20_of_32)

theorem last_20_bytes_witness:
  "length wallet0_point = 64 \<and> length (keccak256 wallet0_point) = 32 \<and>
   derive_address_from_public_key_all_wallets keccak256 known_point_decompress
       (bytes_hex wallet0_point) =
     Address (''0x'' @ bytes_hex (drop 12 (keccak256 wallet0_point))) \<and>
   ''0x'' @ bytes_hex (drop 12 (keccak256 wallet0_point)) =
     ''0x9fe13b041b6811b717b311fce887146972b20d6a''"
proof -
  have l: "length wallet0_point = 64" by (simp add: wallet0_point_def)
  from last_20_bytes [OF l length_keccak256, where fc = known_point_decompress] l length_keccak256
    address_wallet0
  show ?thesis by simp
qed

text \<open>
  C3: the compressed key \<open>032c6f57\<dots>f6df\<close> of wallet 0 derives the address
  \<open>0x9fe13b041b6811b717b311fce887146972b20d6a\<close>. The point \<open>wallet0_point\<close> has the \<open>X\<close> of
  the key, an odd \<open>Y\<close> and lies on the curve; given that the library's decompression returns
  it, both scripts hash its 64 bytes with Keccak-256 and return the last 20 bytes of the
  digest.
\<close>

theorem wallet0_vector:
  assumes "fc (compress wallet0_point) = Some wallet0_point"
  shows "bytes_hex (compress wallet0_point) =
           ''032c6f575345bafa41227d802afaa251f9fd1d5613a0f729b46a200ac90a92f6df'' \<and>
         on_curve wallet0_point \<and>
         derive_address_from_public_key_key_derivation keccak256 fc
             ''032c6f575345bafa41227d802afaa251f9fd1d5613a0f729b46a200ac90a92f6df'' True =
           Address ''0x9fe13b041b6811b717b311fce887146972b20d6a'' \<and>
         derive_address_from_public_key_all_wallets keccak256 fc
             ''032c6f575345bafa41227d802afaa251f9fd1d5613a0f729b46a200ac90a92f6df'' =
           Address ''0x9fe13b041b6811b717b311fce887146972b20d6a''"
proof -
  have a: "address_of_uncompressed keccak256 wallet0_point =
      Address ''0x9fe13b041b6811b717b311fce887146972b20d6a''"
    by (simp add: address_of_uncompressed_def strip_prefix_wallet0 address_wallet0)
  from derive_all_wallets_33 [where fc = fc and keccak = keccak256, OF length_compress_wallet0 assms]
    derive_key_derivation_33 [where fc = fc and keccak = keccak256, OF length_compress_wallet0 assms]
  show ?thesis
    unfolding compress_wallet0 a using on_curve_wallet0 by simp
qed

theorem wallet0_vector_witness:
  "known_point_decompress (compress wallet0_point) = Some wallet0_point \<and>
   derive_address_from_public_key_key_derivation keccak256 known_point_decompress
       ''032c6f575345bafa41227d802afaa251f9fd1d5613a0f729b46a200ac90a92f6df'' True =
     Address ''0x9fe13b041b6811b717b311fce887146972b20d6a''"
  using wallet0_vector [where fc = known_point_decompress, OF known_wallet0] known_wallet0
  by simp

text \<open>
  C10: on every text of 66 characters (after the optional \<open>0x\<close>), hence on every 33-byte
  compressed key, \<open>derive_address_from_public_key\<close> of \<open>test_all_wallets.py\<close> and that of
  \<open>test_key_derivation.py\<close> with \<open>compressed=True\<close> return the same string; when the key
  decompresses to a point of the curve that string is an address.
\<close>

theorem compressed_paths_agree:
  assumes "length (strip_0x public_key_hex) = 66"
  shows "derive_address_from_public_key_all_wallets keccak fc public_key_hex =
           derive_address_from_public_key_key_derivation keccak fc public_key_hex True \<and>
         (\<forall>bs raw. public_key_hex = bytes_hex bs \<and> fc bs = Some raw \<and> on_curve raw \<longrightarrow>
            (\<exists>a. derive_address_from_public_key_all_wallets keccak fc public_key_hex = Address a))"
proof -
  have eq: "uncompressed_bytes_all_wallets fc public_key_hex =
      uncompressed_bytes_key_derivation fc public_key_hex True"
    using assms
    by (simp add: uncompressed_bytes_all_wallets_def uncompressed_bytes_key_derivation_def Let_def)
  have "\<exists>a. derive_address_from_public_key_all_wallets keccak fc public_key_hex = Address a"
    if h: "public_key_hex = bytes_hex bs" "fc bs = Some raw" "on_curve raw" for bs raw
  proof -
    from assms h(1) have l: "length bs = 33" by (simp add: strip_0x_bytes_hex length_bytes_hex)
    from h(3) have "length raw = 64" by (simp add: on_curve_def)
    then obtain b rest where "raw = b # rest" by (cases raw) auto
    with derive_all_wallets_33 [where fc = fc and keccak = keccak, OF l h(2)] h(1) show ?thesis
      by (simp add: address_of_uncompressed_def strip_prefix_def)
  qed
  with eq show ?thesis
    by (simp add: derive_address_from_public_key_all_wallets_def
        derive_address_from_public_key_key_derivation_def)
qed

theorem compressed_paths_agree_witness:
  "length (strip_0x ''0x032c6f575345bafa41227d802afaa251f9fd1d5613a0f729b46a200ac90a92f6df'') = 66 \<and>
   derive_address_from_public_key_all_wallets keccak256 known_point_decompress
       ''0x032c6f575345bafa41227d802afaa251f9fd1d5613a0f729b46a200ac90a92f6df'' =
   derive_address_from_public_key_key_derivation keccak256 known_point_decompress
       ''0x032c6f575345bafa41227d802afaa251f9fd1d5613a0f729b46a200ac90a92f6df'' True"
proof -
  have l: "length (strip_0x ''0x032c6f575345bafa41227d802afaa251f9fd1d5613a0f729b46a200ac90a92f6df'') = 66"
    by (simp add: strip_0x_def)
  from compressed_paths_agree [OF l] l show ?thesis by blast
qed

text \<open>
  C5, as the code has it: a 65-byte input whose first byte is \<open>0x04\<close> loses that byte and the
  remaining 64 bytes are hashed, exactly as for the raw 64-byte input of
  \<open>test_all_wallets.py\<close>. A 65-byte input with any other first byte is not refused: all 65
  bytes are kept and hashed, and an address is returned.
\<close>

theorem prefix_stripped_only_when_04:
  assumes "length key = 64"
  shows "normalized_key_all_wallets fc (bytes_hex (0x04 # key)) = Inr key \<and>
         normalized_key_all_wallets fc (bytes_hex key) = Inr key \<and>
         normalized_key_key_derivation fc (bytes_hex (0x04 # key)) compressed = Inr key \<and>
         (b \<noteq> 0x04 \<longrightarrow>
            normalized_key_all_wallets fc (bytes_hex (b # key)) = Inr (b # key) \<and>
            normalized_key_key_derivation fc (bytes_hex (b # key)) compressed = Inr (b # key) \<and>
            derive_address_from_public_key_all_wallets keccak fc (bytes_hex (b # key)) =
              Address (address_string keccak (b # key)) \<and>
            derive_address_from_public_key_key_derivation keccak fc (bytes_hex (b # key)) compressed =
              Address (address_string keccak (b # key)))"
  using assms
  by (simp add: derive_all_wallets_normalized derive_key_derivation_normalized
      normalized_all_wallets_64 normalized_all_wallets_65 normalized_key_derivation_65)

theorem prefix_stripped_only_when_04_witness:
  "length (replicate 64 (0 :: byte)) = 64 \<and> (0x05 :: byte) \<noteq> 0x04 \<and>
   normalized_key_all_wallets known_point_decompress (bytes_hex (0x04 # replicate 64 0)) =
     Inr (replicate 64 0) \<and>
   normalized_key_all_wallets known_point_decompress (bytes_hex (0x05 # replicate 64 0)) =
     Inr (0x05 # replicate 64 0)"
proof -
  have l: "length (replicate 64 (0 :: byte)) = 64" by simp
  have n: "(0x05 :: byte) \<noteq> 0x04" by simp
  from prefix_stripped_only_when_04 [OF l, where fc = known_point_decompress and b = "0x05"] l n
  show ?thesis by blast
qed

text \<open>
  C5 as stated fails: the 65 bytes \<open>05 00 \<dots> 00\<close> are given an address by both scripts.
\<close>

theorem leading_05_counterexample:
  "derive_address_from_public_key_all_wallets keccak256 known_point_decompress
       (''05'' @ replicate 128 (CHR ''0'')) =
     Address ''0xbf8ff1a7bddd6e755456a7dc31fea3cbc3e81bc1'' \<and>
   derive_address_from_public_key_key_derivation keccak256 known_point_decompress
       (''05'' @ replicate 128 (CHR ''0'')) True =
     Address ''0xbf8ff1a7bddd6e755456a7dc31fea3cbc3e81bc1''"
proof -
  have l: "length (replicate 64 (0 :: byte)) = 64" by simp
  have n: "(if (0x05 :: byte) = 0x04 then replicate 64 0 else 0x05 # replicate 64 0) =
      0x05 # replicate 64 (0 :: byte)"
    by simp
  show ?thesis
    unfolding bytes_hex_05_zeros [symmetric]
    by (simp only: derive_all_wallets_normalized derive_key_derivation_normalized
        normalized_all_wallets_65 [OF l] normalized_key_derivation_65 [OF l] n sum.case
        address_05_zeros simp_thms)
qed




text \<open>
  C8: the three encodings of a point should normalise to the same 64 bytes. The scripts
  test the first byte of the decompressed key, which has no prefix, for \<open>0x04\<close>: for the
  point with \<open>X = 0x0400\<dots>04\<close> the compressed input loses the first byte of \<open>X\<close>, 63 bytes
  are hashed, and the address differs from the one derived from the raw or prefixed input.
\<close>

theorem x04_key_loses_a_byte:
  assumes "fc (compress x04_point) = Some x04_point"
  shows "on_curve x04_point \<and>
         bytes_hex (compress x04_point) =
           ''020400000000000000000000000000000000000000000000000000000000000004'' \<and>
         normalized_key_all_wallets fc (bytes_hex (compress x04_point)) = Inr (tl x04_point) \<and>
         normalized_key_all_wallets fc (bytes_hex (uncompressed_prefixed x04_point)) = Inr x04_point \<and>
         normalized_key_all_wallets fc (bytes_hex x04_point) = Inr x04_point \<and>
         length (tl x04_point) = 63 \<and>
         derive_address_from_public_key_all_wallets keccak256 fc (bytes_hex (compress x04_point)) =
           Address ''0x8c224b425720f67a86baec77f383e40ecaf3b067'' \<and>
         derive_address_from_public_key_all_wallets keccak256 fc (bytes_hex x04_point) =
           Address ''0x1ea80676e86cd34fd4ce05f55462129a7e4115f9''"
proof -
  have l: "length x04_point = 64" by (simp add: x04_point_def)
  have n1: "normalized_key_all_wallets fc (bytes_hex (compress x04_point)) = Inr (tl x04_point)"
    by (simp add: normalized_key_all_wallets_def uncompressed_all_wallets_33
        length_compress_x04 assms strip_prefix_x04)
  have n2: "normalized_key_all_wallets fc (bytes_hex (uncompressed_prefixed x04_point)) = Inr x04_point"
    by (simp add: uncompressed_prefixed_def normalized_all_wallets_65 [OF l])
  have n3: "normalized_key_all_wallets fc (bytes_hex x04_point) = Inr x04_point"
    by (rule normalized_all_wallets_64 [OF l])
  have t: "length (tl x04_point) = 63" using l by simp
  have d1: "derive_address_from_public_key_all_wallets keccak256 fc (bytes_hex (compress x04_point)) =
           Address ''0x8c224b425720f67a86baec77f383e40ecaf3b067''"
    by (simp only: derive_all_wallets_normalized n1 sum.case address_x04_tail)
  have d2: "derive_address_from_public_key_all_wallets keccak256 fc (bytes_hex x04_point) =
           Address ''0x1ea80676e86cd34fd4ce05f55462129a7e4115f9''"
    by (simp only: derive_all_wallets_normalized n3 sum.case address_x04)
  from n1 n2 n3 t on_curve_x04 compress_x04 d1 d2 show ?thesis by blast
qed

theorem x04_key_loses_a_byte_witness:
  "known_point_decompress (compress x04_point) = Some x04_point \<and>
   derive_address_from_public_key_all_wallets keccak256 known_point_decompress
       ''020400000000000000000000000000000000000000000000000000000000000004'' =
     Address ''0x8c224b425720f67a86baec77f383e40ecaf3b067'' \<and>
   derive_address_from_public_key_all_wallets keccak256 known_point_decompress
       (bytes_hex x04_point) =
     Address ''0x1ea80676e86cd34fd4ce05f55462129a7e4115f9''"
proof -
  from x04_key_loses_a_byte [where fc = known_point_decompress, OF known_x04]
  have "derive_address_from_public_key_all_wallets keccak256 known_point_decompress
          (bytes_hex (compress x04_point)) =
        Address ''0x8c224b425720f67a86baec77f383e40ecaf3b067''"
    and "derive_address_from_public_key_all_wallets keccak256 known_point_decompress
          (bytes_hex x04_point) =
        Address ''0x1ea80676e86cd34fd4ce05f55462129a7e4115f9''"
    by blast+
  with known_x04 show ?thesis unfolding compress_x04 by blast
qed

text \<open>For every other point the three encodings do normalise to the same bytes.\<close>

lemma encodings_agree_unless_x04:
  assumes "length raw = 64" and "fc (compress raw) = Some raw" and "hd raw \<noteq> 0x04"
  shows "normalized_key_all_wallets fc (bytes_hex (compress raw)) = Inr raw \<and>
         normalized_key_all_wallets fc (bytes_hex (uncompressed_prefixed raw)) = Inr raw \<and>
         normalized_key_all_wallets fc (bytes_hex raw) = Inr raw"
proof -
  from assms(1) obtain b rest where r: "raw = b # rest" by (cases raw) auto
  have lc: "length (compress raw) = 33" using assms(1) by (simp add: compress_def)
  from assms(3) r have "b \<noteq> 0x04" by simp
  with normalized_all_wallets_33 [where fc = fc, OF lc, of b rest] assms(2) r
  have "normalized_key_all_wallets fc (bytes_hex (compress raw)) = Inr raw" by simp
  with assms(1) show ?thesis
    by (simp add: uncompressed_prefixed_def normalized_all_wallets_65 normalized_all_wallets_64)
qed

end
